theory Spec2Isabelle
  imports Complex_Main
begin

section \<open>JavaScript numbers\<close>

text \<open>
  A JavaScript number is modelled as an exact real, or one of the three special values
  \<open>Infinity\<close>, \<open>-Infinity\<close> and \<open>NaN\<close>. Arithmetic on finite numbers is exact:
  binary64 rounding and overflow are outside the model, and so is the sign of zero.
  A division by zero yields a special value, as in the language, and the special values
  propagate through the operators the way IEEE 754 prescribes. Where a function only
  ever computes with finite numbers (tick generation, band layout, the chart frame), its
  numbers are plain reals.
\<close>

datatype jsnum = Fin real | PInf | NInf | NaN

fun isFinite :: "jsnum \<Rightarrow> bool" where
  "isFinite (Fin x) = True"
| "isFinite _ = False"









section \<open>scales.js\<close>

subsection \<open>linearScale\<close>


subsection \<open>bandScale\<close>





section \<open>ticks.js\<close>






section \<open>PieChart.js: the slice computation of render\<close>

text \<open>
  A datum is \<open>{label, value}\<close>; the value is any number, special values included.
  \<^verbatim>\<open>
  const validData = currentData
    .map((d) => ({ ...d, value: Number.isFinite(d.value) ? Math.max(0, d.value) : 0 }))
    .filter((d) => d.value > 0);
  const total = validData.reduce((acc, d) => acc + d.value, 0);
  \<close>
  After the clamp every value is a finite number, so the valid data carry reals.
\<close>

record pie_datum =
  label :: string
  datum_value :: jsnum

definition clampValue :: "jsnum \<Rightarrow> real" where
  "clampValue v = (case v of Fin x \<Rightarrow> max 0 x | _ \<Rightarrow> 0)"

definition validData :: "pie_datum list \<Rightarrow> (string \<times> real) list" where
  "validData currentData =
     filter (\<lambda>d. snd d > 0) (map (\<lambda>d. (label d, clampValue (datum_value d))) currentData)"

definition total_value :: "(string \<times> real) list \<Rightarrow> real" where
  "total_value vd = fold (\<lambda>d acc. acc + snd d) vd 0"

text \<open>
  \<^verbatim>\<open>
  const slices = [];
  if (validData.length > 0 && total > 0) {
    let angle = -Math.PI / 2;
    validData.forEach((d) => {
      const fraction = d.value / total;
      const span = fraction * TAU;
      const start = angle;
      const end = angle + span;
      angle = end;
      slices.push({ ...d, start, end, fraction });
    });
  }
  \<close>
\<close>

record slice =
  slice_label :: string
  slice_value :: real
  slice_start :: real
  slice_end :: real
  fraction :: real

definition TAU :: real where
  "TAU = pi * 2"

fun slice_loop :: "real \<Rightarrow> real \<Rightarrow> (string \<times> real) list \<Rightarrow> slice list" where
  "slice_loop tot angle [] = []"
| "slice_loop tot angle (d # ds) =
     (let fr = snd d / tot;
          span = fr * TAU;
          start = angle;
          end' = angle + span
      in \<lparr> slice_label = fst d, slice_value = snd d, slice_start = start,
           slice_end = end', fraction = fr \<rparr> # slice_loop tot end' ds)"

definition pie_slices :: "pie_datum list \<Rightarrow> slice list" where
  "pie_slices currentData =
     (let vd = validData currentData;
          total = total_value vd
      in if length vd > 0 \<and> total > 0 then slice_loop total (- pi / 2) vd else [])"

text \<open>
  What \<open>render\<close> draws into the cleared SVG: the grey placeholder circle
  (\<open>pie-empty-ring\<close>, centre and radius) when there is no slice, and otherwise the sectors
  with centre, outer and inner radius.
  \<^verbatim>\<open>
  const paddingTop = legend?.show ? 20 : 10;
  const padding = 10;
  const availableWidth = currentWidth - padding * 2;
  const availableHeight = height - paddingTop - padding;
  const radius = Math.min(availableWidth, availableHeight) / 2;
  const cx = padding + availableWidth / 2;
  const cy = paddingTop + availableHeight / 2;
  const ratio = Math.max(0, Math.min(innerRadiusRatio, 0.95));
  const innerR = Math.max(0, Math.min(radius * ratio, radius - 2));
  ...
  if (slices.length === 0) { /* emptyCircle(cx, cy, radius) */ return; }
  \<close>
\<close>

datatype pie_scene =
    EmptyRing real real real
  | Sectors real real real real "slice list"

definition pie_render :: "bool \<Rightarrow> real \<Rightarrow> real \<Rightarrow> real \<Rightarrow> pie_datum list \<Rightarrow> pie_scene" where
  "pie_render legendShow currentWidth height innerRadiusRatio currentData =
     (let slices = pie_slices currentData;
          paddingTop = (if legendShow then 20 else 10);
          padding = 10;
          availableWidth = currentWidth - padding * 2;
          availableHeight = height - paddingTop - padding;
          radius = min availableWidth availableHeight / 2;
          cx = padding + availableWidth / 2;
          cy = paddingTop + availableHeight / 2;
          ratio = max 0 (min innerRadiusRatio (95 / 100));
          innerR = max 0 (min (radius * ratio) (radius - 2))
      in if length slices = 0 then EmptyRing cx cy radius
         else Sectors cx cy radius innerR slices)"

section \<open>ChartWrapper.js\<close>

text \<open>
  The options of \<open>createChartWrapper\<close>: \<open>width\<close> may be absent; \<open>framePadding\<close> is a partial
  padding merged onto the default \<open>{top: 24, right: 24, bottom: 40, left: 40}\<close>.
\<close>

record padding =
  pad_top :: real
  pad_right :: real
  pad_bottom :: real
  pad_left :: real

record frame_padding =
  fp_top :: "real option"
  fp_right :: "real option"
  fp_bottom :: "real option"
  fp_left :: "real option"

record wrapper_options =
  width :: "real option"
  height :: real
  framePadding :: "frame_padding option"
  minWidth :: real
  defaultWidth :: real

definition defaultPadding :: padding where
  "defaultPadding = \<lparr> pad_top = 24, pad_right = 24, pad_bottom = 40, pad_left = 40 \<rparr>"

definition or_default :: "'a option \<Rightarrow> 'a \<Rightarrow> 'a" where
  "or_default x d = (case x of Some v \<Rightarrow> v | None \<Rightarrow> d)"

definition pad :: "wrapper_options \<Rightarrow> padding" where
  "pad opts =
     (case framePadding opts of
        None \<Rightarrow> defaultPadding
      | Some fp \<Rightarrow>
          \<lparr> pad_top = or_default (fp_top fp) (pad_top defaultPadding),
            pad_right = or_default (fp_right fp) (pad_right defaultPadding),
            pad_bottom = or_default (fp_bottom fp) (pad_bottom defaultPadding),
            pad_left = or_default (fp_left fp) (pad_left defaultPadding) \<rparr>)"

text \<open>\<open>!width\<close>: the width is absent or 0; then the wrapper is responsive.\<close>

definition responsive :: "wrapper_options \<Rightarrow> bool" where
  "responsive opts = (case width opts of None \<Rightarrow> True | Some w \<Rightarrow> w = 0)"

text \<open>
  The state of one wrapper. \<open>resizeTimer\<close> is the pending timeout, if any, with the time in
  milliseconds at which it is due; a timeout that has fired or was cleared is not pending.
  \<open>observing\<close> says that a \<open>ResizeObserver\<close> exists and is connected, \<open>mounted\<close> that the
  container still holds the wrapper's elements, \<open>clock\<close> is the current time. Every call
  of the \<open>render\<close> callback is logged in \<open>draws\<close> with the time, the outer width set on
  the SVG, the inner dimensions passed to the callback, and whether the SVG was still in
  the container.
\<close>

record draw_call =
  call_time :: nat
  outerW :: real
  innerWidth :: real
  innerHeight :: real
  attached :: bool

record wrapper =
  currentWidth :: real
  resizeTimer :: "nat option"
  observing :: bool
  mounted :: bool
  clock :: nat
  draws :: "draw_call list"

text \<open>
  \<^verbatim>\<open>
  const doRender = () => {
    const outerW = currentWidth;
    const innerWidth = outerW - pad.left - pad.right;
    const innerHeight = height - pad.top - pad.bottom;
    svg.setAttribute("width", outerW); ...
    render({ innerWidth, innerHeight, svg, g });
  };
  \<close>
\<close>

definition doRender :: "wrapper_options \<Rightarrow> wrapper \<Rightarrow> wrapper" where
  "doRender opts s =
     (let outerW = currentWidth s;
          innerWidth = outerW - pad_left (pad opts) - pad_right (pad opts);
          innerHeight = height opts - pad_top (pad opts) - pad_bottom (pad opts)
      in s\<lparr> draws := draws s @
            [\<lparr> call_time = clock s, outerW = outerW, innerWidth = innerWidth,
               innerHeight = innerHeight, attached = mounted s \<rparr>] \<rparr>)"

text \<open>
  Construction, at time \<open>now\<close>, in a container whose new wrapper element measures
  \<open>rectWidth\<close>:
  \<^verbatim>\<open>
  let currentWidth = width ?? defaultWidth;
  if (!width) {
    const rect = wrapper.getBoundingClientRect();
    if (rect.width > 0) currentWidth = Math.max(rect.width, minWidth);
  }
  let resizeObserver = null;
  if (!width) { let resizeTimer = null; resizeObserver = new ResizeObserver(...); ... }
  doRender();
  \<close>
\<close>

definition createChartWrapper :: "wrapper_options \<Rightarrow> real \<Rightarrow> nat \<Rightarrow> wrapper" where
  "createChartWrapper opts rectWidth now =
     (let w0 = or_default (width opts) (defaultWidth opts);
          w1 = (if responsive opts \<and> rectWidth > 0 then max rectWidth (minWidth opts) else w0)
      in doRender opts
           \<lparr> currentWidth = w1, resizeTimer = None, observing = responsive opts,
             mounted = True, clock = now, draws = [] \<rparr>)"

text \<open>
  The body of the observer's loop, for one entry of width \<open>w\<close>:
  \<^verbatim>\<open>
  const newWidth = Math.max(entry.contentRect.width, minWidth);
  if (newWidth !== currentWidth) {
    currentWidth = newWidth;
    if (resizeTimer) clearTimeout(resizeTimer);
    resizeTimer = setTimeout(() => { doRender(); }, 100);
  }
  \<close>
\<close>

definition onEntry :: "wrapper_options \<Rightarrow> real \<Rightarrow> wrapper \<Rightarrow> wrapper" where
  "onEntry opts w s =
     (let newWidth = max w (minWidth opts)
      in if newWidth \<noteq> currentWidth s
         then s\<lparr> currentWidth := newWidth, resizeTimer := Some (clock s + 100) \<rparr>
         else s)"

text \<open>
  What can happen to a wrapper: the observer delivers a notification with its entries
  (only a connected observer does), time passes, the owner calls \<open>update()\<close>, the owner
  calls \<open>destroy()\<close>. When time passes up to or beyond the moment a pending timeout is due,
  the timeout fires at that moment and runs \<open>doRender\<close>.
  \<^verbatim>\<open>
  update() { doRender(); },
  destroy() {
    if (resizeObserver) { resizeObserver.disconnect(); }
    container.innerHTML = "";
  },
  \<close>
\<close>

datatype event = Resize "real list" | Elapse nat | Update | Destroy

definition destroy :: "wrapper \<Rightarrow> wrapper" where
  "destroy s = s\<lparr> observing := False, mounted := False \<rparr>"

definition elapse :: "wrapper_options \<Rightarrow> nat \<Rightarrow> wrapper \<Rightarrow> wrapper" where
  "elapse opts dt s =
     (case resizeTimer s of
        None \<Rightarrow> s\<lparr> clock := clock s + dt \<rparr>
      | Some due \<Rightarrow>
          if due \<le> clock s + dt
          then (doRender opts (s\<lparr> clock := due, resizeTimer := None \<rparr>))\<lparr> clock := clock s + dt \<rparr>
          else s\<lparr> clock := clock s + dt \<rparr>)"

fun react :: "wrapper_options \<Rightarrow> event \<Rightarrow> wrapper \<Rightarrow> wrapper" where
  "react opts (Resize entries) s = (if observing s then fold (onEntry opts) entries s else s)"
| "react opts (Elapse dt) s = elapse opts dt s"
| "react opts Update s = doRender opts s"
| "react opts Destroy s = destroy s"

definition run :: "wrapper_options \<Rightarrow> event list \<Rightarrow> wrapper \<Rightarrow> wrapper" where
  "run opts evs s = fold (react opts) evs s"

text \<open>
  A burst of notifications, each with one entry and each preceded by a delay in
  milliseconds.
\<close>

fun burst :: "(nat \<times> real) list \<Rightarrow> event list" where
  "burst [] = []"
| "burst ((dt, w) # rest) = Elapse dt # Resize [w] # burst rest"

text \<open>
  The options of a responsive wrapper with every default: no fixed width, height 360,
  no frame padding, minimum width 320, default width 640.
\<close>

definition responsive_defaults :: wrapper_options where
  "responsive_defaults =
     \<lparr> width = None, height = 360, framePadding = None, minWidth = 320, defaultWidth = 640 \<rparr>"

section \<open>Properties of linearScale\<close>






section \<open>Properties of bandScale\<close>























section \<open>Properties of makeTicks\<close>

subsection \<open>The count policy\<close>










subsection \<open>The step policy\<close>












section \<open>Properties of the pie slices\<close>

lemma validData_labels:
  "map fst (validData ds) = map label (filter (\<lambda>d. 0 < clampValue (datum_value d)) ds)"
  by (induction ds) (simp_all add: validData_def)

lemma validData_values:
  "validData ds = map (\<lambda>d. (label d, clampValue (datum_value d)))
                     (filter (\<lambda>d. 0 < clampValue (datum_value d)) ds)"
  by (induction ds) (simp_all add: validData_def)

lemma slice_loop_map:
  "map (\<lambda>s. (slice_label s, slice_value s)) (slice_loop tot a vd) = vd"
  by (induction vd arbitrary: a) (simp_all add: Let_def)

lemma total_fold: "fold (\<lambda>d acc. acc + snd d) vd (a::real) = a + sum_list (map snd vd)"
  by (induction vd arbitrary: a) simp_all

lemma total_value_sum: "total_value vd = sum_list (map snd vd)"
  by (simp add: total_value_def total_fold)

lemma validData_pos: "d \<in> set (validData ds) \<Longrightarrow> 0 < snd d"
  by (auto simp: validData_def)

lemma sum_list_pos_real:
  fixes xs :: "real list"
  assumes "xs \<noteq> []" "\<forall>x\<in>set xs. 0 < x"
  shows "0 < sum_list xs"
  using assms by (induction xs) (auto intro: add_pos_nonneg sum_list_nonneg less_imp_le)

lemma total_pos: "validData ds \<noteq> [] \<Longrightarrow> 0 < total_value (validData ds)"
  unfolding total_value_sum
  by (rule sum_list_pos_real) (auto dest: validData_pos)

lemma pie_slices_eq:
  "pie_slices ds = slice_loop (total_value (validData ds)) (- pi / 2) (validData ds)"
proof (cases "validData ds = []")
  case True
  then show ?thesis by (simp add: pie_slices_def)
next
  case False
  with total_pos [OF False] show ?thesis by (simp add: pie_slices_def Let_def)
qed

lemma clampValue_cases:
  "clampValue (Fin x) = max 0 x" "clampValue PInf = 0" "clampValue NInf = 0" "clampValue NaN = 0"
  by (simp_all add: clampValue_def)

text \<open>
  C9. The slice computation replaces a non-finite or negative value by 0 and keeps a
  non-negative one; the slices are, in order, the records whose clamped value is
  positive, each with that value. For \<open>[{label: "A", value: 0}, {label: "B", value: 50}]\<close>
  the only slice is B, from \<open>-\<pi>/2\<close> to \<open>-\<pi>/2 + 2\<pi>\<close>, with fraction 1. When no record has
  a positive clamped value there is no slice and \<open>render\<close> draws the placeholder circle.
\<close>

theorem pie_slices_valid:
  "(\<forall>v. \<not> isFinite v \<longrightarrow> clampValue v = 0)
   \<and> (\<forall>x. x < 0 \<longrightarrow> clampValue (Fin x) = 0)
   \<and> (\<forall>x. 0 \<le> x \<longrightarrow> clampValue (Fin x) = x)
   \<and> map (\<lambda>s. (slice_label s, slice_value s)) (pie_slices ds)
       = map (\<lambda>d. (label d, clampValue (datum_value d)))
           (filter (\<lambda>d. 0 < clampValue (datum_value d)) ds)
   \<and> pie_slices [\<lparr> label = ''A'', datum_value = Fin 0 \<rparr>, \<lparr> label = ''B'', datum_value = Fin 50 \<rparr>]
       = [\<lparr> slice_label = ''B'', slice_value = 50, slice_start = - pi / 2,
            slice_end = - pi / 2 + 2 * pi, fraction = 1 \<rparr>]
   \<and> ((\<forall>d\<in>set ds. \<not> 0 < clampValue (datum_value d)) \<longrightarrow>
         pie_slices ds = []
         \<and> pie_render legendShow w h ratio ds
             = EmptyRing (10 + (w - 20) / 2)
                 ((if legendShow then 20 else 10) + (h - (if legendShow then 20 else 10) - 10) / 2)
                 (min (w - 20) (h - (if legendShow then 20 else 10) - 10) / 2))"
proof -
  have nf: "clampValue v = 0" if "\<not> isFinite v" for v
    using that by (cases v) (simp_all add: clampValue_cases)
  have neg: "clampValue (Fin x) = 0" if "x < 0" for x
    using that by (simp add: clampValue_cases)
  have pos: "clampValue (Fin x) = x" if "0 \<le> x" for x
    using that by (simp add: clampValue_cases)
  have lab: "map (\<lambda>s. (slice_label s, slice_value s)) (pie_slices ds)
       = map (\<lambda>d. (label d, clampValue (datum_value d)))
           (filter (\<lambda>d. 0 < clampValue (datum_value d)) ds)"
    by (simp add: pie_slices_eq slice_loop_map validData_values)
  have ex: "pie_slices [\<lparr> label = ''A'', datum_value = Fin 0 \<rparr>, \<lparr> label = ''B'', datum_value = Fin 50 \<rparr>]
       = [\<lparr> slice_label = ''B'', slice_value = 50, slice_start = - pi / 2,
            slice_end = - pi / 2 + 2 * pi, fraction = 1 \<rparr>]"
    by (simp add: pie_slices_def validData_def clampValue_cases total_value_def TAU_def Let_def)
  have empty: "pie_slices ds = []
         \<and> pie_render legendShow w h ratio ds
             = EmptyRing (10 + (w - 20) / 2)
                 ((if legendShow then 20 else 10) + (h - (if legendShow then 20 else 10) - 10) / 2)
                 (min (w - 20) (h - (if legendShow then 20 else 10) - 10) / 2)"
    if "\<forall>d\<in>set ds. \<not> 0 < clampValue (datum_value d)"
  proof -
    from that have "filter (\<lambda>d. 0 < clampValue (datum_value d)) ds = []"
      by (simp add: filter_empty_conv)
    then have "validData ds = []" by (simp add: validData_values)
    then have e: "pie_slices ds = []" by (simp add: pie_slices_def)
    then show ?thesis by (simp add: pie_render_def Let_def)
  qed
  from nf neg pos lab ex empty show ?thesis by blast
qed

theorem pie_slices_valid_witness:
  "clampValue PInf = 0 \<and> clampValue (Fin (- 3)) = 0 \<and> clampValue (Fin 7) = 7
   \<and> pie_slices [\<lparr> label = ''A'', datum_value = NaN \<rparr>, \<lparr> label = ''B'', datum_value = Fin (- 3) \<rparr>] = []
   \<and> pie_render True 640 360 0
         [\<lparr> label = ''A'', datum_value = NaN \<rparr>, \<lparr> label = ''B'', datum_value = Fin (- 3) \<rparr>]
       = EmptyRing 320 185 165"
proof -
  let ?ds = "[\<lparr> label = ''A'', datum_value = NaN \<rparr>, \<lparr> label = ''B'', datum_value = Fin (- 3) \<rparr>]"
  note t = pie_slices_valid [of ?ds True 640 360 0]
  have h: "\<forall>d\<in>set ?ds. \<not> 0 < clampValue (datum_value d)"
    by (simp add: clampValue_cases)
  have n: "\<not> isFinite PInf" "(- 3 :: real) < 0" "(0::real) \<le> 7" by simp_all
  from t n have "clampValue PInf = 0" "clampValue (Fin (- 3)) = 0" "clampValue (Fin 7) = 7"
    by blast+
  moreover from t h have "pie_slices ?ds = [] \<and> pie_render True 640 360 0 ?ds
             = EmptyRing (10 + (640 - 20) / 2)
                 ((if True then 20 else 10) + (360 - (if True then 20 else 10) - 10) / 2)
                 (min (640 - 20) (360 - (if True then 20 else 10) - 10) / 2)"
    by blast
  ultimately show ?thesis by simp
qed

section \<open>Properties of the chart wrapper\<close>

lemma run_Nil: "run opts [] s = s"
  by (simp add: run_def)

lemma run_Cons: "run opts (e # es) s = run opts es (react opts e s)"
  by (simp add: run_def)

lemma run_append: "run opts (es @ fs) s = run opts fs (run opts es s)"
  by (simp add: run_def)

lemma onEntry_fields:
  "observing (onEntry opts w s) = observing s"
  "mounted (onEntry opts w s) = mounted s"
  "clock (onEntry opts w s) = clock s"
  "draws (onEntry opts w s) = draws s"
  "currentWidth (onEntry opts w s) = max w (minWidth opts)"
  "resizeTimer (onEntry opts w s) =
     (if max w (minWidth opts) \<noteq> currentWidth s then Some (clock s + 100) else resizeTimer s)"
  by (simp_all add: onEntry_def Let_def)

lemma elapse_quiet:
  assumes "\<forall>due. resizeTimer s = Some due \<longrightarrow> clock s + dt < due"
  shows "elapse opts dt s = s\<lparr> clock := clock s + dt \<rparr>"
  using assms by (cases "resizeTimer s") (simp_all add: elapse_def)

lemma elapse_fire:
  assumes "resizeTimer s = Some due" "due \<le> clock s + dt"
  shows "elapse opts dt s =
     s\<lparr> resizeTimer := None, clock := clock s + dt,
        draws := draws s @
          [\<lparr> call_time = due, outerW = currentWidth s,
             innerWidth = currentWidth s - pad_left (pad opts) - pad_right (pad opts),
             innerHeight = height opts - pad_top (pad opts) - pad_bottom (pad opts),
             attached = mounted s \<rparr>] \<rparr>"
  using assms by (simp add: elapse_def doRender_def Let_def)

lemma destroy_fields:
  "resizeTimer (destroy s) = resizeTimer s"
  "currentWidth (destroy s) = currentWidth s"
  "clock (destroy s) = clock s"
  "draws (destroy s) = draws s"
  "observing (destroy s) = False"
  "mounted (destroy s) = False"
  by (simp_all add: destroy_def)

lemma burst_quiet:
  assumes "observing s"
    and "\<forall>due. resizeTimer s = Some due \<longrightarrow>
           clock s + sum_list (map fst ns) < due \<and> due \<le> clock s + 100"
    and "sum_list (map fst ns) < 100"
  shows "observing (run opts (burst ns) s)
       \<and> mounted (run opts (burst ns) s) = mounted s
       \<and> draws (run opts (burst ns) s) = draws s
       \<and> clock (run opts (burst ns) s) = clock s + sum_list (map fst ns)
       \<and> currentWidth (run opts (burst ns) s)
            = (if ns = [] then currentWidth s else max (snd (last ns)) (minWidth opts))
       \<and> (resizeTimer (run opts (burst ns) s) = None \<longleftrightarrow>
            resizeTimer s = None \<and> (\<forall>n\<in>set ns. max (snd n) (minWidth opts) = currentWidth s))
       \<and> (\<forall>due. resizeTimer (run opts (burst ns) s) = Some due \<longrightarrow>
            clock (run opts (burst ns) s) < due \<and> due \<le> clock (run opts (burst ns) s) + 100)"
  using assms
proof (induction ns arbitrary: s)
  case Nil
  then show ?case by (simp add: run_Nil)
next
  case (Cons n ns)
  obtain dt w where n: "n = (dt, w)" by (cases n)
  define s0 where "s0 = elapse opts dt s"
  define s1 where "s1 = onEntry opts w s0"
  from Cons.prems(2) have q: "\<forall>due. resizeTimer s = Some due \<longrightarrow> clock s + dt < due"
    by (auto simp: n)
  have s0: "s0 = s\<lparr> clock := clock s + dt \<rparr>"
    unfolding s0_def by (rule elapse_quiet [OF q])
  have r: "run opts (burst (n # ns)) s = run opts (burst ns) s1"
    using Cons.prems(1) by (simp add: n run_Cons s1_def s0_def s0 [unfolded s0_def])
  have o1: "observing s1" using Cons.prems(1) by (simp add: s1_def onEntry_fields s0)
  have m1: "mounted s1 = mounted s" by (simp add: s1_def onEntry_fields s0)
  have d1: "draws s1 = draws s" by (simp add: s1_def onEntry_fields s0)
  have c1: "clock s1 = clock s + dt" by (simp add: s1_def onEntry_fields s0)
  have w1: "currentWidth s1 = max w (minWidth opts)" by (simp add: s1_def onEntry_fields)
  have t1: "resizeTimer s1 =
      (if max w (minWidth opts) \<noteq> currentWidth s then Some (clock s + dt + 100) else resizeTimer s)"
    by (simp add: s1_def onEntry_fields s0)
  from Cons.prems(3) have rest: "sum_list (map fst ns) < 100" by (simp add: n)
  have p1: "\<forall>due. resizeTimer s1 = Some due \<longrightarrow>
           clock s1 + sum_list (map fst ns) < due \<and> due \<le> clock s1 + 100"
    using Cons.prems(2) rest by (auto simp: t1 c1 n split: if_splits)
  note IH = Cons.IH [OF o1 p1 rest]
  have tn: "resizeTimer s1 = None \<longleftrightarrow>
      resizeTimer s = None \<and> max w (minWidth opts) = currentWidth s"
    by (simp add: t1)
  have last: "(if n # ns = [] then currentWidth s else max (snd (last (n # ns))) (minWidth opts))
      = (if ns = [] then currentWidth s1 else max (snd (last ns)) (minWidth opts))"
    by (simp add: w1 n)
  have all: "(resizeTimer s1 = None \<and> (\<forall>n\<in>set ns. max (snd n) (minWidth opts) = currentWidth s1))
      \<longleftrightarrow> (resizeTimer s = None \<and> (\<forall>m\<in>set (n # ns). max (snd m) (minWidth opts) = currentWidth s))"
    using tn w1 by (auto simp: n)
  from IH show ?case
    unfolding r last all [symmetric] by (auto simp: m1 d1 c1 n)
qed

lemma create_responsive_defaults:
  "createChartWrapper responsive_defaults 640 0 =
     \<lparr> currentWidth = 640, resizeTimer = None, observing = True, mounted = True, clock = 0,
       draws = [\<lparr> call_time = 0, outerW = 640, innerWidth = 576, innerHeight = 296,
                  attached = True \<rparr>] \<rparr>"
  by (simp add: createChartWrapper_def responsive_defaults_def responsive_def or_default_def
        doRender_def pad_def defaultPadding_def Let_def)

lemma create_narrow:
  "createChartWrapper responsive_defaults 300 0 =
     \<lparr> currentWidth = 320, resizeTimer = None, observing = True, mounted = True, clock = 0,
       draws = [\<lparr> call_time = 0, outerW = 320, innerWidth = 256, innerHeight = 296,
                  attached = True \<rparr>] \<rparr>"
  by (simp add: createChartWrapper_def responsive_defaults_def responsive_def or_default_def
        doRender_def pad_def defaultPadding_def Let_def)

lemma responsive_defaults_fields:
  "pad responsive_defaults = defaultPadding" "height responsive_defaults = 360"
  "minWidth responsive_defaults = 320"
  by (simp_all add: responsive_defaults_def pad_def)

text \<open>
  C1. \<open>destroy()\<close> disconnects the observer and empties the container, and leaves a pending
  timeout pending. With the default options and a container 640 wide: a notification
  of width 500 arms the timeout, \<open>destroy()\<close> is called 50 ms later, and at 100 ms the
  timeout fires and the \<open>render\<close> callback is called a second time, with outer width
  500, on an SVG that is no longer in the container.
\<close>

theorem destroy_keeps_pending_timer:
  "resizeTimer (destroy s) = resizeTimer s
   \<and> draws (run responsive_defaults [Resize [500], Elapse 50, Destroy, Elapse 50]
              (createChartWrapper responsive_defaults 640 0))
       = [\<lparr> call_time = 0, outerW = 640, innerWidth = 576, innerHeight = 296, attached = True \<rparr>,
          \<lparr> call_time = 100, outerW = 500, innerWidth = 436, innerHeight = 296,
            attached = False \<rparr>]"
  by (simp add: create_responsive_defaults run_def onEntry_def elapse_def destroy_def
        doRender_def responsive_defaults_fields defaultPadding_def Let_def)

text \<open>
  C7 (as the code has it). A connected observer with no timeout pending receives
  notifications that all arrive within less than 100 ms, and then at least 100 ms pass.
  If at least one notification carries a clamped width \<open>max(w, minWidth)\<close> that differs
  from the width stored before the burst, the \<open>render\<close> callback is called exactly once
  more, with the clamped width of the last notification; no earlier width of the burst is
  rendered. If every clamped width equals the stored width, it is not called at all.
  Either way no timeout is pending afterwards.
\<close>

theorem resize_debounce:
  assumes "observing s" and "resizeTimer s = None"
    and "sum_list (map fst ns) < 100" and "100 \<le> k"
  shows "((\<exists>n\<in>set ns. max (snd n) (minWidth opts) \<noteq> currentWidth s) \<longrightarrow>
            (\<exists>t. draws (run opts (burst ns @ [Elapse k]) s) = draws s @
               [\<lparr> call_time = t, outerW = max (snd (last ns)) (minWidth opts),
                  innerWidth = max (snd (last ns)) (minWidth opts)
                                 - pad_left (pad opts) - pad_right (pad opts),
                  innerHeight = height opts - pad_top (pad opts) - pad_bottom (pad opts),
                  attached = mounted s \<rparr>]))
       \<and> ((\<forall>n\<in>set ns. max (snd n) (minWidth opts) = currentWidth s) \<longrightarrow>
            draws (run opts (burst ns @ [Elapse k]) s) = draws s)
       \<and> resizeTimer (run opts (burst ns @ [Elapse k]) s) = None"
proof -
  define s' where "s' = run opts (burst ns) s"
  have fin: "run opts (burst ns @ [Elapse k]) s = elapse opts k s'"
    by (simp add: run_append run_Cons run_Nil s'_def)
  from assms(2) have p: "\<forall>due. resizeTimer s = Some due \<longrightarrow>
           clock s + sum_list (map fst ns) < due \<and> due \<le> clock s + 100"
    by simp
  note inv = burst_quiet [OF assms(1) p assms(3), of opts, folded s'_def]
  from inv have d: "draws s' = draws s" and m: "mounted s' = mounted s"
    and w: "currentWidth s' = (if ns = [] then currentWidth s else max (snd (last ns)) (minWidth opts))"
    and tn: "resizeTimer s' = None \<longleftrightarrow>
               (\<forall>n\<in>set ns. max (snd n) (minWidth opts) = currentWidth s)"
    using assms(2) by simp_all
  from inv have due: "\<forall>due. resizeTimer s' = Some due \<longrightarrow> clock s' < due \<and> due \<le> clock s' + 100"
    by blast
  have changed: "\<exists>t. draws (elapse opts k s') = draws s @
               [\<lparr> call_time = t, outerW = max (snd (last ns)) (minWidth opts),
                  innerWidth = max (snd (last ns)) (minWidth opts)
                                 - pad_left (pad opts) - pad_right (pad opts),
                  innerHeight = height opts - pad_top (pad opts) - pad_bottom (pad opts),
                  attached = mounted s \<rparr>]"
    and changed_t: "resizeTimer (elapse opts k s') = None"
    if c: "\<exists>n\<in>set ns. max (snd n) (minWidth opts) \<noteq> currentWidth s"
  proof -
    from c have ne: "ns \<noteq> []" by auto
    from c tn obtain t where t: "resizeTimer s' = Some t" by auto
    with due assms(4) have "t \<le> clock s' + k" by simp
    note f = elapse_fire [OF t this, of opts]
    from ne show "\<exists>t. draws (elapse opts k s') = draws s @
               [\<lparr> call_time = t, outerW = max (snd (last ns)) (minWidth opts),
                  innerWidth = max (snd (last ns)) (minWidth opts)
                                 - pad_left (pad opts) - pad_right (pad opts),
                  innerHeight = height opts - pad_top (pad opts) - pad_bottom (pad opts),
                  attached = mounted s \<rparr>]"
      by (simp add: f d m w)
    show "resizeTimer (elapse opts k s') = None"
      by (simp add: f)
  qed
  have same: "draws (elapse opts k s') = draws s"
    and same_t: "resizeTimer (elapse opts k s') = None"
    if c: "\<forall>n\<in>set ns. max (snd n) (minWidth opts) = currentWidth s"
  proof -
    from c tn have t: "resizeTimer s' = None" by simp
    then have q: "\<forall>due. resizeTimer s' = Some due \<longrightarrow> clock s' + k < due" by simp
    show "draws (elapse opts k s') = draws s"
      by (simp add: elapse_quiet [OF q] d)
    show "resizeTimer (elapse opts k s') = None"
      by (simp add: elapse_quiet [OF q] t)
  qed
  have "resizeTimer (elapse opts k s') = None"
  proof (cases "\<forall>n\<in>set ns. max (snd n) (minWidth opts) = currentWidth s")
    case True
    then show ?thesis by (rule same_t)
  next
    case False
    then have "\<exists>n\<in>set ns. max (snd n) (minWidth opts) \<noteq> currentWidth s" by simp
    then show ?thesis by (rule changed_t)
  qed
  with changed same show ?thesis
    unfolding fin by (intro conjI impI)
qed

theorem resize_debounce_witness:
  "\<exists>t. draws (run responsive_defaults (burst [(0, 500), (20, 480), (20, 450)] @ [Elapse 100])
                (createChartWrapper responsive_defaults 640 0))
        = [\<lparr> call_time = 0, outerW = 640, innerWidth = 576, innerHeight = 296, attached = True \<rparr>,
           \<lparr> call_time = t, outerW = 450, innerWidth = 386, innerHeight = 296, attached = True \<rparr>]"
proof -
  let ?s = "createChartWrapper responsive_defaults 640 0"
  let ?ns = "[(0, 500), (20, 480), (20, 450)] :: (nat \<times> real) list"
  have o: "observing ?s" and t: "resizeTimer ?s = None"
    by (simp_all add: create_responsive_defaults)
  have q: "sum_list (map fst ?ns) < 100" and k: "(100::nat) \<le> 100"
    by simp_all
  have c: "\<exists>n\<in>set ?ns. max (snd n) (minWidth responsive_defaults) \<noteq> currentWidth ?s"
    by (simp add: create_responsive_defaults responsive_defaults_fields)
  from resize_debounce [OF o t q k, of responsive_defaults] c
  have "\<exists>t. draws (run responsive_defaults (burst ?ns @ [Elapse 100]) ?s) = draws ?s @
               [\<lparr> call_time = t, outerW = max (snd (last ?ns)) (minWidth responsive_defaults),
                  innerWidth = max (snd (last ?ns)) (minWidth responsive_defaults)
                                 - pad_left (pad responsive_defaults)
                                 - pad_right (pad responsive_defaults),
                  innerHeight = height responsive_defaults - pad_top (pad responsive_defaults)
                                 - pad_bottom (pad responsive_defaults),
                  attached = mounted ?s \<rparr>]"
    by blast
  then show ?thesis
    by (simp add: create_responsive_defaults responsive_defaults_fields defaultPadding_def)
qed

text \<open>
  C7 as stated fails when the widths are distinct but all below the minimum while the
  stored width is the minimum: the clamped width never changes, no timeout is armed and
  nothing is rendered again. A container 300 wide gives a stored width of 320; the
  notifications 310, 300, 290 leave the single initial render.
\<close>

theorem resize_debounce_counterexample:
  "draws (run responsive_defaults (burst [(0, 310), (10, 300), (10, 290)] @ [Elapse 100])
            (createChartWrapper responsive_defaults 300 0))
   = [\<lparr> call_time = 0, outerW = 320, innerWidth = 256, innerHeight = 296, attached = True \<rparr>]"
  by (simp add: create_narrow run_def onEntry_def elapse_def responsive_defaults_fields Let_def)

end
